theory Spec2Isabelle
  imports Main "HOL-Library.Word"
begin

section \<open>Strings and numbers shared by both archives\<close>

text \<open>
  A \<^verbatim>\<open>std::string\<close> is a byte sequence and may hold NUL bytes; a \<^verbatim>\<open>const char*\<close> is read
  up to its first NUL. Names handed to \<^verbatim>\<open>setNextName\<close> are \<^verbatim>\<open>const char*\<close>: wherever the
  code reads one as a C string (\<^verbatim>\<open>strcmp\<close>, \<^verbatim>\<open>std::string(name)\<close>, \<^verbatim>\<open>Writer::String(name)\<close>),
  the model applies \<open>c_str\<close>.
\<close>

definition c_str :: "string \<Rightarrow> string" where
  "c_str s = takeWhile (\<lambda>c. c \<noteq> CHR 0x00) s"

text \<open>\<^verbatim>\<open>std::strcmp(a, b) == 0\<close>\<close>

definition strcmp_eq :: "string \<Rightarrow> string \<Rightarrow> bool" where
  "strcmp_eq a b = (c_str a = c_str b)"

text \<open>\<^verbatim>\<open>std::to_string\<close> on an unsigned value: its decimal digits.\<close>

definition digit_char :: "nat \<Rightarrow> char" where
  "digit_char d = ''0123456789'' ! d"

function to_string :: "nat \<Rightarrow> string" where
  "to_string n =
     (if n < 10 then [digit_char n] else to_string (n div 10) @ [digit_char (n mod 10)])"
  by pat_completeness auto
termination
  by (relation "measure id") auto

declare to_string.simps [simp del]

text \<open>
  A \<^verbatim>\<open>double\<close> is carried as its 64-bit pattern. No floating-point arithmetic and no
  conversion between a double and decimal text is modelled.
\<close>

type_synonym double = "64 word"

type_synonym byte = "8 word"

section \<open>Write side: \<^verbatim>\<open>JSONOutputArchive\<close>\<close>

datatype NodeType = StartObject | InObject | StartArray | InArray

text \<open>
  The RapidJSON \<^verbatim>\<open>PrettyWriter\<close> is driven through its member functions; what the archive
  does to it is the sequence of these calls, oldest first.
\<close>

datatype writer_call =
    W_StartObject
  | W_EndObject
  | W_StartArray
  | W_EndArray
  | W_Bool bool
  | W_Int "32 word"
  | W_Uint "32 word"
  | W_Int64 "64 word"
  | W_Uint64 "64 word"
  | W_Double double
  | W_String string
  | W_Null

text \<open>
  The two stacks are lists whose head is \<^verbatim>\<open>top()\<close>. \<^verbatim>\<open>itsNextName\<close> is \<open>None\<close> for
  \<^verbatim>\<open>nullptr\<close>. \<^verbatim>\<open>itsNameCounter\<close> is a \<^verbatim>\<open>std::stack<uint32_t>\<close>.
\<close>

record JSONOutputArchive =
  itsWriter :: "writer_call list"
  itsNextName_out :: "string option"
  itsNameCounter :: "32 word list"
  itsNodeStack :: "NodeType list"

text \<open>The constructor: name counter 0 and \<open>StartObject\<close> for the root level.\<close>

definition JSONOutputArchive_new :: JSONOutputArchive where
  "JSONOutputArchive_new =
     \<lparr>itsWriter = [], itsNextName_out = None, itsNameCounter = [0], itsNodeStack = [StartObject]\<rparr>"

definition call :: "writer_call \<Rightarrow> JSONOutputArchive \<Rightarrow> JSONOutputArchive" where
  "call c ar = ar\<lparr>itsWriter := itsWriter ar @ [c]\<rparr>"

definition setNextName_out :: "string option \<Rightarrow> JSONOutputArchive \<Rightarrow> JSONOutputArchive" where
  "setNextName_out name ar = ar\<lparr>itsNextName_out := name\<rparr>"

definition saveValue_bool :: "bool \<Rightarrow> JSONOutputArchive \<Rightarrow> JSONOutputArchive" where
  "saveValue_bool b ar = call (W_Bool b) ar"

definition saveValue_int :: "32 word \<Rightarrow> JSONOutputArchive \<Rightarrow> JSONOutputArchive" where
  "saveValue_int i ar = call (W_Int i) ar"

definition saveValue_unsigned :: "32 word \<Rightarrow> JSONOutputArchive \<Rightarrow> JSONOutputArchive" where
  "saveValue_unsigned u ar = call (W_Uint u) ar"

definition saveValue_int64 :: "64 word \<Rightarrow> JSONOutputArchive \<Rightarrow> JSONOutputArchive" where
  "saveValue_int64 i64 ar = call (W_Int64 i64) ar"

definition saveValue_uint64 :: "64 word \<Rightarrow> JSONOutputArchive \<Rightarrow> JSONOutputArchive" where
  "saveValue_uint64 u64 ar = call (W_Uint64 u64) ar"

definition saveValue_double :: "double \<Rightarrow> JSONOutputArchive \<Rightarrow> JSONOutputArchive" where
  "saveValue_double d ar = call (W_Double d) ar"

text \<open>\<^verbatim>\<open>saveValue(std::string const&)\<close> passes \<^verbatim>\<open>s.c_str()\<close> with \<^verbatim>\<open>s.size()\<close>: all bytes.\<close>

definition saveValue_string :: "string \<Rightarrow> JSONOutputArchive \<Rightarrow> JSONOutputArchive" where
  "saveValue_string s ar = call (W_String s) ar"

text \<open>\<^verbatim>\<open>saveValue(char const*)\<close> passes the pointer alone: the writer reads up to the NUL.\<close>

definition saveValue_cstr :: "string \<Rightarrow> JSONOutputArchive \<Rightarrow> JSONOutputArchive" where
  "saveValue_cstr s ar = call (W_String (c_str s)) ar"

definition saveValue_null :: "JSONOutputArchive \<Rightarrow> JSONOutputArchive" where
  "saveValue_null ar = call W_Null ar"

text \<open>
  \<^verbatim>\<open>writeName\<close>. \<open>None\<close> stands for \<^verbatim>\<open>top()\<close> of an empty stack, which C++ leaves undefined.
  \<^verbatim>\<open>nodeType\<close> is a reference to the top of the stack, so the test for \<open>InArray\<close> reads the
  value the first \<^verbatim>\<open>if\<close> has just stored.
\<close>

definition writeName :: "JSONOutputArchive \<Rightarrow> JSONOutputArchive option" where
  "writeName ar =
     (case itsNodeStack ar of
        [] \<Rightarrow> None
      | t # below \<Rightarrow>
          let ar1 =
                (if t = StartArray then
                   (call W_StartArray ar)\<lparr>itsNodeStack := InArray # below\<rparr>
                 else if t = StartObject then
                   call W_StartObject (ar\<lparr>itsNodeStack := InObject # below\<rparr>)
                 else ar);
              nodeType = hd (itsNodeStack ar1)
          in if nodeType = InArray then Some ar1
             else
               (case itsNextName_out ar1 of
                  None \<Rightarrow>
                    (case itsNameCounter ar1 of
                       [] \<Rightarrow> None
                     | c # cs \<Rightarrow>
                         Some (saveValue_string (''value'' @ to_string (unat c))
                                 (ar1\<lparr>itsNameCounter := (c + 1) # cs\<rparr>)))
                | Some name \<Rightarrow> Some ((saveValue_cstr name ar1)\<lparr>itsNextName_out := None\<rparr>)))"

definition startNode_out :: "JSONOutputArchive \<Rightarrow> JSONOutputArchive option" where
  "startNode_out ar =
     (case writeName ar of
        None \<Rightarrow> None
      | Some ar1 \<Rightarrow>
          Some (ar1\<lparr>itsNodeStack := StartObject # itsNodeStack ar1,
                     itsNameCounter := 0 # itsNameCounter ar1\<rparr>))"

text \<open>The \<^verbatim>\<open>switch\<close> of \<^verbatim>\<open>finishNode\<close>, with its two fall-throughs.\<close>

fun finish_calls :: "NodeType \<Rightarrow> writer_call list" where
  "finish_calls StartArray = [W_StartArray, W_EndArray]"
| "finish_calls InArray = [W_EndArray]"
| "finish_calls StartObject = [W_StartObject, W_EndObject]"
| "finish_calls InObject = [W_EndObject]"

definition finishNode_out :: "JSONOutputArchive \<Rightarrow> JSONOutputArchive option" where
  "finishNode_out ar =
     (case itsNodeStack ar of
        [] \<Rightarrow> None
      | t # below \<Rightarrow>
          (case itsNameCounter ar of
             [] \<Rightarrow> None
           | c # cs \<Rightarrow>
               Some (ar\<lparr>itsWriter := itsWriter ar @ finish_calls t,
                         itsNodeStack := below, itsNameCounter := cs\<rparr>)))"

definition makeArray :: "JSONOutputArchive \<Rightarrow> JSONOutputArchive option" where
  "makeArray ar =
     (case itsNodeStack ar of
        [] \<Rightarrow> None
      | t # below \<Rightarrow> Some (ar\<lparr>itsNodeStack := StartArray # below\<rparr>))"

text \<open>The destructor \<^verbatim>\<open>~JSONOutputArchive\<close>: one test of the top of the stack.\<close>

definition destructor :: "JSONOutputArchive \<Rightarrow> JSONOutputArchive option" where
  "destructor ar =
     (case itsNodeStack ar of
        [] \<Rightarrow> None
      | t # below \<Rightarrow>
          Some (if t = InObject then call W_EndObject ar
                else if t = InArray then call W_EndArray ar
                else ar))"

text \<open>
  \<^verbatim>\<open>saveBinaryValue\<close>. The codec \<^verbatim>\<open>base64::encode\<close> lives in
  \<^verbatim>\<open>ser20/external/base64.hpp\<close>, outside the archive; it is the parameter \<open>encode\<close>.
\<close>

definition saveBinaryValue ::
  "(byte list \<Rightarrow> string) \<Rightarrow> byte list \<Rightarrow> string option \<Rightarrow> JSONOutputArchive
     \<Rightarrow> JSONOutputArchive option" where
  "saveBinaryValue encode data name ar =
     (case writeName (setNextName_out name ar) of
        None \<Rightarrow> None
      | Some ar1 \<Rightarrow> Some (saveValue_string (encode data) ar1))"

text \<open>
  What the framework does for \<^verbatim>\<open>ar(x)\<close> with a scalar \<^verbatim>\<open>x\<close>: the prologue for arithmetic
  types and strings calls \<^verbatim>\<open>writeName\<close>, then the save function calls \<^verbatim>\<open>saveValue\<close>; the
  epilogue is empty.
\<close>

definition ar_bool :: "bool \<Rightarrow> JSONOutputArchive \<Rightarrow> JSONOutputArchive option" where
  "ar_bool b ar = map_option (saveValue_bool b) (writeName ar)"

definition ar_int :: "32 word \<Rightarrow> JSONOutputArchive \<Rightarrow> JSONOutputArchive option" where
  "ar_int i ar = map_option (saveValue_int i) (writeName ar)"

definition ar_string :: "string \<Rightarrow> JSONOutputArchive \<Rightarrow> JSONOutputArchive option" where
  "ar_string s ar = map_option (saveValue_string s) (writeName ar)"

text \<open>
  Bookkeeping for the emitted calls: the number of compounds begun and not yet ended, and
  the number of levels of the node stack whose compound has been begun.
\<close>

fun nesting_change :: "writer_call \<Rightarrow> int" where
  "nesting_change W_StartObject = 1"
| "nesting_change W_StartArray = 1"
| "nesting_change W_EndObject = - 1"
| "nesting_change W_EndArray = - 1"
| "nesting_change _ = 0"

definition unclosed :: "writer_call list \<Rightarrow> int" where
  "unclosed cs = sum_list (map nesting_change cs)"

definition begun :: "NodeType list \<Rightarrow> int" where
  "begun st = int (length (filter (\<lambda>t. t = InObject \<or> t = InArray) st))"

section \<open>The parsed document\<close>

text \<open>
  A \<^verbatim>\<open>simdjson::dom::element\<close>: an object keeps its members in document order, duplicate
  keys included. An integer of the text is an \<open>JInt64\<close> when it fits 64 signed bits and a
  \<open>JUint64\<close> otherwise.
\<close>

datatype json =
    JObject "(string \<times> json) list"
  | JArray "json list"
  | JBool bool
  | JInt64 "64 word"
  | JUint64 "64 word"
  | JDouble double
  | JString string
  | JNull

datatype simdjson_error = INCORRECT_TYPE | NUMBER_OUT_OF_RANGE

fun is_array :: "json \<Rightarrow> bool" where
  "is_array (JArray xs) = True"
| "is_array _ = False"

fun is_object :: "json \<Rightarrow> bool" where
  "is_object (JObject ms) = True"
| "is_object _ = False"

fun is_null :: "json \<Rightarrow> bool" where
  "is_null JNull = True"
| "is_null _ = False"

fun get_array :: "json \<Rightarrow> simdjson_error + json list" where
  "get_array (JArray xs) = Inr xs"
| "get_array _ = Inl INCORRECT_TYPE"

fun get_object :: "json \<Rightarrow> simdjson_error + (string \<times> json) list" where
  "get_object (JObject ms) = Inr ms"
| "get_object _ = Inl INCORRECT_TYPE"

fun get_bool :: "json \<Rightarrow> simdjson_error + bool" where
  "get_bool (JBool b) = Inr b"
| "get_bool _ = Inl INCORRECT_TYPE"

text \<open>
  The 64-bit getters of simdjson convert between the two integer kinds when the value
  fits and report \<open>NUMBER_OUT_OF_RANGE\<close> when it does not.
\<close>

fun get_int64 :: "json \<Rightarrow> simdjson_error + 64 word" where
  "get_int64 (JInt64 v) = Inr v"
| "get_int64 (JUint64 v) = (if v \<le> 0x7FFFFFFFFFFFFFFF then Inr v else Inl NUMBER_OUT_OF_RANGE)"
| "get_int64 _ = Inl INCORRECT_TYPE"

fun get_uint64 :: "json \<Rightarrow> simdjson_error + 64 word" where
  "get_uint64 (JUint64 v) = Inr v"
| "get_uint64 (JInt64 v) = (if sint v < 0 then Inl NUMBER_OUT_OF_RANGE else Inr v)"
| "get_uint64 _ = Inl INCORRECT_TYPE"

fun get_string :: "json \<Rightarrow> simdjson_error + string" where
  "get_string (JString s) = Inr s"
| "get_string _ = Inl INCORRECT_TYPE"

text \<open>
  \<^verbatim>\<open>size()\<close> of a simdjson array or object: the number of children, which simdjson
  saturates at \<^verbatim>\<open>0xFFFFFF\<close>.
\<close>

definition dom_size :: "'a list \<Rightarrow> nat" where
  "dom_size xs = min (length xs) 0xFFFFFF"

text \<open>
  \<^verbatim>\<open>key_equals(std::string_view)\<close> of an object iterator, called with a \<^verbatim>\<open>const char*\<close>:
  the view ends at the first NUL of the name and is compared with the whole key.
\<close>

definition key_equals :: "string \<Rightarrow> string \<Rightarrow> bool" where
  "key_equals key searchName = (key = c_str searchName)"

section \<open>Read side: \<^verbatim>\<open>JSONInputArchive\<close>\<close>

datatype error =
    NoMoreObjects
  | NullIterator
  | SearchNonObject
  | NVPNotFound string
  | NotArrayNorObject
  | ParentNotArrayNorObject
  | RootNotObjectOrArray
  | BinarySizeMismatch
  | AssertionFailure
  | Simdjson simdjson_error
  | EmptyIteratorStack

text \<open>
  The exceptions of the read side, in the order of the source: "No more objects in input",
  the internal error of \<^verbatim>\<open>value()\<close> on a null iterator, "Cannot search for a name in a
  non-object JSON node", "provided NVP (name) not found", "Current JSON node is neither an
  array nor an object", "Parent JSON node is neither an array nor an object", "JSON root
  element is not an object or array", "Decoded binary data size does not match specified
  size", a failed \<^verbatim>\<open>SER20_RAPIDJSON_ASSERT\<close>, and the \<^verbatim>\<open>simdjson_error\<close> that \<^verbatim>\<open>.value()\<close>
  throws. \<open>EmptyIteratorStack\<close> stands for \<^verbatim>\<open>back()\<close> or \<^verbatim>\<open>pop_back()\<close> of an empty vector,
  which C++ leaves undefined.
\<close>

datatype IteratorType = Type_Array | Type_Object | Type_Null

text \<open>
  The nested class \<^verbatim>\<open>Iterator\<close>. A simdjson iterator is a position in the document; the
  range from \<^verbatim>\<open>itsObjectItBegin\<close> to \<^verbatim>\<open>itsObjectItEnd\<close> is the list \<open>itsObjectMembers\<close>, and
  \<open>itsObjectItCurrent\<close> is an index into it: begin is 0, end is the length. The same holds
  for the array triple. A C++ iterator never passes its end, so \<^verbatim>\<open>current != end\<close> is
  \<open>current < length\<close>.
\<close>

record Iterator =
  itsObjectMembers :: "(string \<times> json) list"
  itsObjectItCurrent :: nat
  itsArrayElements :: "json list"
  itsArrayItCurrent :: nat
  itsType :: IteratorType

definition Iterator_default :: Iterator where
  "Iterator_default =
     \<lparr>itsObjectMembers = [], itsObjectItCurrent = 0, itsArrayElements = [],
      itsArrayItCurrent = 0, itsType = Type_Null\<rparr>"

definition Iterator_object :: "(string \<times> json) list \<Rightarrow> Iterator" where
  "Iterator_object ms =
     \<lparr>itsObjectMembers = ms, itsObjectItCurrent = 0, itsArrayElements = [],
      itsArrayItCurrent = 0, itsType = (if 0 < length ms then Type_Object else Type_Null)\<rparr>"

definition Iterator_array :: "json list \<Rightarrow> Iterator" where
  "Iterator_array xs =
     \<lparr>itsObjectMembers = [], itsObjectItCurrent = 0, itsArrayElements = xs,
      itsArrayItCurrent = 0, itsType = (if 0 < length xs then Type_Array else Type_Null)\<rparr>"

text \<open>\<^verbatim>\<open>operator++\<close>\<close>

definition Iterator_incr :: "Iterator \<Rightarrow> Iterator" where
  "Iterator_incr it =
     (if itsType it = Type_Array then
        (if itsArrayItCurrent it < length (itsArrayElements it)
         then it\<lparr>itsArrayItCurrent := Suc (itsArrayItCurrent it)\<rparr> else it)
      else if itsType it = Type_Object then
        (if itsObjectItCurrent it < length (itsObjectMembers it)
         then it\<lparr>itsObjectItCurrent := Suc (itsObjectItCurrent it)\<rparr> else it)
      else it)"

definition Iterator_value :: "Iterator \<Rightarrow> error + json" where
  "Iterator_value it =
     (if (itsType it = Type_Array \<and> \<not> itsArrayItCurrent it < length (itsArrayElements it)) \<or>
         (itsType it = Type_Object \<and> \<not> itsObjectItCurrent it < length (itsObjectMembers it))
      then Inl NoMoreObjects
      else (case itsType it of
              Type_Array \<Rightarrow> Inr (itsArrayElements it ! itsArrayItCurrent it)
            | Type_Object \<Rightarrow> Inr (snd (itsObjectMembers it ! itsObjectItCurrent it))
            | Type_Null \<Rightarrow> Inl NullIterator))"

text \<open>
  \<^verbatim>\<open>name()\<close> returns \<^verbatim>\<open>key_c_str()\<close>, a pointer to the key's bytes; the caller reads it as a
  C string.
\<close>

definition Iterator_name :: "Iterator \<Rightarrow> string option" where
  "Iterator_name it =
     (if itsType it = Type_Object \<and> itsObjectItCurrent it < length (itsObjectMembers it)
      then Some (fst (itsObjectMembers it ! itsObjectItCurrent it))
      else None)"

text \<open>
  The \<^verbatim>\<open>while\<close> loop of \<^verbatim>\<open>Iterator::search\<close>, run on \<^verbatim>\<open>itsObjectItCurrent\<close> itself: the result
  is whether the loop returned at a match, and where it left the cursor.
\<close>

function search_loop :: "string \<Rightarrow> (string \<times> json) list \<Rightarrow> nat \<Rightarrow> bool \<times> nat" where
  "search_loop searchName ms cur =
     (if cur < length ms then
        (if key_equals (fst (ms ! cur)) searchName then (True, cur)
         else search_loop searchName ms (Suc cur))
      else (False, cur))"
  by pat_completeness auto
termination
  by (relation "measure (\<lambda>(n, ms, cur). length ms - cur)") auto

declare search_loop.simps [simp del]

text \<open>
  \<^verbatim>\<open>Iterator::search\<close>. An exception leaves the iterator as the code had changed it up to
  the \<^verbatim>\<open>throw\<close>; the error comes with that iterator.
\<close>

definition Iterator_search :: "string \<Rightarrow> Iterator \<Rightarrow> (error \<times> Iterator) + Iterator" where
  "Iterator_search searchName it =
     (if itsType it \<noteq> Type_Object then Inl (SearchNonObject, it)
      else
        (case search_loop searchName (itsObjectMembers it) 0 of
           (True, cur) \<Rightarrow> Inr (it\<lparr>itsObjectItCurrent := cur\<rparr>)
         | (False, cur) \<Rightarrow>
             Inl (NVPNotFound (c_str searchName), it\<lparr>itsObjectItCurrent := cur\<rparr>)))"

definition Iterator_isValid :: "Iterator \<Rightarrow> bool" where
  "Iterator_isValid it =
     (if itsType it = Type_Array then itsArrayItCurrent it < length (itsArrayElements it)
      else if itsType it = Type_Object then itsObjectItCurrent it < length (itsObjectMembers it)
      else False)"

text \<open>
  The archive. \<open>itsIteratorStack\<close> is the \<^verbatim>\<open>std::vector<Iterator>\<close> with its \<^verbatim>\<open>back()\<close> as the
  head of the list. A member function that throws returns \<open>Inl\<close> of the error and the
  archive as it stands at the \<^verbatim>\<open>throw\<close>.
\<close>

record JSONInputArchive =
  itsNextName_in :: "string option"
  itsDocument :: json
  itsIteratorStack :: "Iterator list"

type_synonym 'a result = "(error \<times> JSONInputArchive) + ('a \<times> JSONInputArchive)"

text \<open>The constructors after parsing: \<^verbatim>\<open>itsNextName(nullptr)\<close> and \<^verbatim>\<open>Init()\<close>.\<close>

definition Init :: "json \<Rightarrow> error + JSONInputArchive" where
  "Init doc =
     (if is_array doc then
        (case get_array doc of
           Inl e \<Rightarrow> Inl (Simdjson e)
         | Inr arr \<Rightarrow>
             Inr \<lparr>itsNextName_in = None, itsDocument = doc,
                  itsIteratorStack = [Iterator_array arr]\<rparr>)
      else if is_object doc then
        (case get_object doc of
           Inl e \<Rightarrow> Inl (Simdjson e)
         | Inr obj \<Rightarrow>
             Inr \<lparr>itsNextName_in = None, itsDocument = doc,
                  itsIteratorStack = [Iterator_object obj]\<rparr>)
      else Inl RootNotObjectOrArray)"

definition setNextName_in :: "string option \<Rightarrow> JSONInputArchive \<Rightarrow> JSONInputArchive" where
  "setNextName_in name ar = ar\<lparr>itsNextName_in := name\<rparr>"

text \<open>The private \<^verbatim>\<open>search()\<close> of the archive.\<close>

definition search_in :: "JSONInputArchive \<Rightarrow> (error \<times> JSONInputArchive) + JSONInputArchive" where
  "search_in ar =
     (let localNextName = itsNextName_in ar;
          ar1 = ar\<lparr>itsNextName_in := None\<rparr>
      in case localNextName of
           None \<Rightarrow> Inr ar1
         | Some n \<Rightarrow>
             (case itsIteratorStack ar1 of
                [] \<Rightarrow> Inl (EmptyIteratorStack, ar1)
              | it # its \<Rightarrow>
                  (case Iterator_name it of
                     Some actualName \<Rightarrow>
                       if \<not> strcmp_eq n actualName then
                         (case Iterator_search n it of
                            Inl (e, it') \<Rightarrow> Inl (e, ar1\<lparr>itsIteratorStack := it' # its\<rparr>)
                          | Inr it' \<Rightarrow> Inr (ar1\<lparr>itsIteratorStack := it' # its\<rparr>))
                       else Inr ar1
                   | None \<Rightarrow>
                       (case Iterator_search n it of
                          Inl (e, it') \<Rightarrow> Inl (e, ar1\<lparr>itsIteratorStack := it' # its\<rparr>)
                        | Inr it' \<Rightarrow> Inr (ar1\<lparr>itsIteratorStack := it' # its\<rparr>)))))"

text \<open>Pushing the cursor over the children of a compound value, as \<^verbatim>\<open>startNode\<close> does.\<close>

definition startNode_in :: "JSONInputArchive \<Rightarrow> (error \<times> JSONInputArchive) + JSONInputArchive" where
  "startNode_in ar =
     (case search_in ar of
        Inl x \<Rightarrow> Inl x
      | Inr ar1 \<Rightarrow>
          (case itsIteratorStack ar1 of
             [] \<Rightarrow> Inl (EmptyIteratorStack, ar1)
           | it # its \<Rightarrow>
               (case Iterator_value it of
                  Inl e \<Rightarrow> Inl (e, ar1)
                | Inr currentValue \<Rightarrow>
                    if is_array currentValue then
                      (case get_array currentValue of
                         Inl e \<Rightarrow> Inl (Simdjson e, ar1)
                       | Inr arr \<Rightarrow>
                           Inr (ar1\<lparr>itsIteratorStack := Iterator_array arr # it # its\<rparr>))
                    else if is_object currentValue then
                      (case get_object currentValue of
                         Inl e \<Rightarrow> Inl (Simdjson e, ar1)
                       | Inr obj \<Rightarrow>
                           Inr (ar1\<lparr>itsIteratorStack := Iterator_object obj # it # its\<rparr>))
                    else Inl (NotArrayNorObject, ar1))))"

definition finishNode_in :: "JSONInputArchive \<Rightarrow> (error \<times> JSONInputArchive) + JSONInputArchive" where
  "finishNode_in ar =
     (case itsIteratorStack ar of
        [] \<Rightarrow> Inl (EmptyIteratorStack, ar)
      | it # its \<Rightarrow>
          Inr (ar\<lparr>itsIteratorStack :=
                    (case its of [] \<Rightarrow> [] | p # ps \<Rightarrow> Iterator_incr p # ps)\<rparr>))"

text \<open>
  Every \<^verbatim>\<open>loadValue\<close> overload has one shape: \<^verbatim>\<open>search()\<close>, a typed getter on
  \<^verbatim>\<open>itsIteratorStack.back().value()\<close> whose \<^verbatim>\<open>.value()\<close> throws on an error, and \<^verbatim>\<open>++\<close> on the
  top iterator. \<open>loadValue_via\<close> is that shape with the getter as its argument.
\<close>

definition loadValue_via :: "(json \<Rightarrow> simdjson_error + 'a) \<Rightarrow> JSONInputArchive \<Rightarrow> 'a result" where
  "loadValue_via getter ar =
     (case search_in ar of
        Inl x \<Rightarrow> Inl x
      | Inr ar1 \<Rightarrow>
          (case itsIteratorStack ar1 of
             [] \<Rightarrow> Inl (EmptyIteratorStack, ar1)
           | it # its \<Rightarrow>
               (case Iterator_value it of
                  Inl e \<Rightarrow> Inl (e, ar1)
                | Inr v \<Rightarrow>
                    (case getter v of
                       Inl e \<Rightarrow> Inl (Simdjson e, ar1)
                     | Inr val \<Rightarrow>
                         Inr (val, ar1\<lparr>itsIteratorStack := Iterator_incr it # its\<rparr>)))))"

definition loadValue_bool :: "JSONInputArchive \<Rightarrow> bool result" where
  "loadValue_bool = loadValue_via get_bool"

definition loadValue_int64 :: "JSONInputArchive \<Rightarrow> (64 word) result" where
  "loadValue_int64 = loadValue_via get_int64"

definition loadValue_uint64 :: "JSONInputArchive \<Rightarrow> (64 word) result" where
  "loadValue_uint64 = loadValue_via get_uint64"

definition loadValue_string :: "JSONInputArchive \<Rightarrow> string result" where
  "loadValue_string = loadValue_via get_string"

text \<open>
  The overloads for a signed and for an unsigned type narrower than 64 bits: the 64-bit
  getter, then \<^verbatim>\<open>static_cast<T>\<close>, which keeps the value modulo \<open>2 ^ w\<close>. The type \<open>'a\<close> is
  the target's width.
\<close>

definition loadValue_small_signed :: "JSONInputArchive \<Rightarrow> ('a::len word) result" where
  "loadValue_small_signed = loadValue_via (\<lambda>v. map_sum id scast (get_int64 v))"

definition loadValue_small_unsigned :: "JSONInputArchive \<Rightarrow> ('a::len word) result" where
  "loadValue_small_unsigned = loadValue_via (\<lambda>v. map_sum id ucast (get_uint64 v))"

text \<open>
  \<^verbatim>\<open>loadValue(std::nullptr_t&)\<close>: the assertion on \<^verbatim>\<open>is_null()\<close> stands where the getter
  stands in the other overloads.
\<close>

definition loadValue_null :: "JSONInputArchive \<Rightarrow> (error \<times> JSONInputArchive) + JSONInputArchive" where
  "loadValue_null ar =
     (case search_in ar of
        Inl x \<Rightarrow> Inl x
      | Inr ar1 \<Rightarrow>
          (case itsIteratorStack ar1 of
             [] \<Rightarrow> Inl (EmptyIteratorStack, ar1)
           | it # its \<Rightarrow>
               (case Iterator_value it of
                  Inl e \<Rightarrow> Inl (e, ar1)
                | Inr v \<Rightarrow>
                    if is_null v then Inr (ar1\<lparr>itsIteratorStack := Iterator_incr it # its\<rparr>)
                    else Inl (AssertionFailure, ar1))))"

definition loadSize :: "JSONInputArchive \<Rightarrow> nat result" where
  "loadSize ar =
     (if length (itsIteratorStack ar) = 1 then
        (if is_array (itsDocument ar) then
           (case get_array (itsDocument ar) of
              Inl e \<Rightarrow> Inl (Simdjson e, ar)
            | Inr arr \<Rightarrow> Inr (dom_size arr, ar))
         else
           (case get_object (itsDocument ar) of
              Inl e \<Rightarrow> Inl (Simdjson e, ar)
            | Inr obj \<Rightarrow> Inr (dom_size obj, ar)))
      else
        (case itsIteratorStack ar of
           it # parent # its \<Rightarrow>
             (case Iterator_value parent of
                Inl e \<Rightarrow> Inl (e, ar)
              | Inr parentValue \<Rightarrow>
                  if is_array parentValue then
                    (case get_array parentValue of
                       Inl e \<Rightarrow> Inl (Simdjson e, ar)
                     | Inr arr \<Rightarrow> Inr (dom_size arr, ar))
                  else if is_object parentValue then
                    (case get_object parentValue of
                       Inl e \<Rightarrow> Inl (Simdjson e, ar)
                     | Inr obj \<Rightarrow> Inr (dom_size obj, ar))
                  else Inl (ParentNotArrayNorObject, ar))
         | _ \<Rightarrow> Inl (EmptyIteratorStack, ar)))"

text \<open>
  \<^verbatim>\<open>loadBinaryValue\<close>. The codec \<^verbatim>\<open>base64::decode\<close> is the parameter \<open>decode\<close>. \<open>data\<close> is
  the destination buffer before the call; the result carries the buffer after it, also
  when the call throws. \<^verbatim>\<open>memcpy\<close> overwrites the first \<^verbatim>\<open>decoded.size()\<close> bytes.
\<close>

definition loadBinaryValue ::
  "(string \<Rightarrow> byte list) \<Rightarrow> byte list \<Rightarrow> nat \<Rightarrow> string option \<Rightarrow> JSONInputArchive
     \<Rightarrow> (error \<times> JSONInputArchive \<times> byte list) + (JSONInputArchive \<times> byte list)" where
  "loadBinaryValue decode data sz name ar =
     (case loadValue_string (ar\<lparr>itsNextName_in := name\<rparr>) of
        Inl (e, ar1) \<Rightarrow> Inl (e, ar1, data)
      | Inr (encoded, ar1) \<Rightarrow>
          let decoded = decode encoded
          in if sz \<noteq> length decoded then Inl (BinarySizeMismatch, ar1, data)
             else Inr (ar1\<lparr>itsNextName_in := None\<rparr>,
                       decoded @ drop (length decoded) data))"

section \<open>From the writer's calls to the parsed document\<close>

text \<open>
  Modelled from the spec: the RapidJSON \<^verbatim>\<open>PrettyWriter\<close>, which turns the calls into JSON text,
  and the simdjson parser, which turns the text into the document, are under
  \<^verbatim>\<open>ser20/external\<close> and not part of the archive. The spec asks of them a streaming emitter
  with begin and end of objects and arrays and typed scalar writes, and a parsed tree with
  objects as key and value pairs, arrays and typed scalars. Their composition is modelled
  as a machine over the calls: a stack of the compounds begun so far, and the finished
  root. In an object a string call in key position is the key. A call sequence that RapidJSON
  would reject, or that leaves a compound open, has no document. The text of a double is
  not modelled: a call sequence with \<open>W_Double\<close> has no document here.
\<close>

datatype frame =
    ObjectFrame "(string \<times> json) list" "string option"
  | ArrayFrame "json list"

type_synonym parse_state = "frame list \<times> json option"

fun scalar_of_call :: "writer_call \<Rightarrow> json option" where
  "scalar_of_call (W_Bool b) = Some (JBool b)"
| "scalar_of_call (W_Int i) = Some (JInt64 (scast i))"
| "scalar_of_call (W_Uint u) = Some (JInt64 (ucast u))"
| "scalar_of_call (W_Int64 i) = Some (JInt64 i)"
| "scalar_of_call (W_Uint64 u) =
     Some (if u \<le> 0x7FFFFFFFFFFFFFFF then JInt64 u else JUint64 u)"
| "scalar_of_call (W_String s) = Some (JString s)"
| "scalar_of_call W_Null = Some JNull"
| "scalar_of_call _ = None"

fun put_value :: "json \<Rightarrow> parse_state \<Rightarrow> parse_state option" where
  "put_value v ([], None) = Some ([], Some v)"
| "put_value v ([], Some r) = None"
| "put_value v (ArrayFrame xs # fs, r) = Some (ArrayFrame (xs @ [v]) # fs, r)"
| "put_value v (ObjectFrame ms (Some k) # fs, r) = Some (ObjectFrame (ms @ [(k, v)]) None # fs, r)"
| "put_value v (ObjectFrame ms None # fs, r) = None"

fun value_expected :: "parse_state \<Rightarrow> bool" where
  "value_expected ([], None) = True"
| "value_expected ([], Some r) = False"
| "value_expected (ArrayFrame xs # fs, r) = True"
| "value_expected (ObjectFrame ms (Some k) # fs, r) = True"
| "value_expected (ObjectFrame ms None # fs, r) = False"

fun feed :: "writer_call \<Rightarrow> parse_state \<Rightarrow> parse_state option" where
  "feed W_StartObject (fs, r) =
     (if value_expected (fs, r) then Some (ObjectFrame [] None # fs, r) else None)"
| "feed W_StartArray (fs, r) =
     (if value_expected (fs, r) then Some (ArrayFrame [] # fs, r) else None)"
| "feed W_EndObject (ObjectFrame ms None # fs, r) = put_value (JObject ms) (fs, r)"
| "feed W_EndObject (fs, r) = None"
| "feed W_EndArray (ArrayFrame xs # fs, r) = put_value (JArray xs) (fs, r)"
| "feed W_EndArray (fs, r) = None"
| "feed (W_String s) (ObjectFrame ms None # fs, r) = Some (ObjectFrame ms (Some s) # fs, r)"
| "feed c (fs, r) = (case scalar_of_call c of None \<Rightarrow> None | Some v \<Rightarrow> put_value v (fs, r))"

fun feed_all :: "writer_call list \<Rightarrow> parse_state \<Rightarrow> parse_state option" where
  "feed_all [] st = Some st"
| "feed_all (c # cs) st = (case feed c st of None \<Rightarrow> None | Some st' \<Rightarrow> feed_all cs st')"

definition document_of :: "writer_call list \<Rightarrow> json option" where
  "document_of cs =
     (case feed_all cs ([], None) of
        Some ([], Some doc) \<Rightarrow> Some doc
      | _ \<Rightarrow> None)"

section \<open>An instance of the byte and text codec\<close>

text \<open>
  Modelled from the spec: \<^verbatim>\<open>ser20/external/base64.hpp\<close> is not part of the archive, and the spec
  only names an external codec between bytes and text. The archive functions above take
  the codec as a parameter. For running them on concrete buffers this is the usual base64:
  three bytes become four characters of the alphabet below, and \<open>=\<close> pads the last group;
  decoding stops at the first character outside the alphabet.
\<close>

definition base64_chars :: string where
  "base64_chars = ''ABCDEFGHIJKLMNOPQRSTUVWXYZabcdefghijklmnopqrstuvwxyz0123456789+/''"

fun base64_encode :: "byte list \<Rightarrow> string" where
  "base64_encode (a # b # c # rest) =
     [base64_chars ! (unat a div 4),
      base64_chars ! ((unat a mod 4) * 16 + unat b div 16),
      base64_chars ! ((unat b mod 16) * 4 + unat c div 64),
      base64_chars ! (unat c mod 64)] @ base64_encode rest"
| "base64_encode [a, b] =
     [base64_chars ! (unat a div 4),
      base64_chars ! ((unat a mod 4) * 16 + unat b div 16),
      base64_chars ! ((unat b mod 16) * 4),
      CHR ''='']"
| "base64_encode [a] =
     [base64_chars ! (unat a div 4),
      base64_chars ! ((unat a mod 4) * 16),
      CHR ''='', CHR ''='']"
| "base64_encode [] = []"

fun char_index :: "char \<Rightarrow> string \<Rightarrow> nat \<Rightarrow> nat option" where
  "char_index c [] i = None"
| "char_index c (d # ds) i = (if c = d then Some i else char_index c ds (i + 1))"

definition base64_value :: "char \<Rightarrow> nat option" where
  "base64_value c = char_index c base64_chars 0"

fun base64_decode :: "string \<Rightarrow> byte list" where
  "base64_decode (w # x # y # z # rest) =
     (case base64_value w of
        None \<Rightarrow> []
      | Some p \<Rightarrow>
          (case base64_value x of
             None \<Rightarrow> []
           | Some q \<Rightarrow>
               of_nat (p * 4 + q div 16) #
               (case base64_value y of
                  None \<Rightarrow> []
                | Some r \<Rightarrow>
                    of_nat ((q mod 16) * 16 + r div 4) #
                    (case base64_value z of
                       None \<Rightarrow> []
                     | Some s \<Rightarrow> of_nat ((r mod 4) * 64 + s) # base64_decode rest))))"
| "base64_decode _ = []"

section \<open>Evaluation and helper lemmas\<close>

lemma to_string_0: "to_string 0 = ''0''"
  by (simp add: to_string.simps digit_char_def)

lemma to_string_1: "to_string (Suc 0) = ''1''"
  by (simp add: to_string.simps digit_char_def)

lemma to_string_2: "to_string 2 = ''2''"
  by (simp add: to_string.simps digit_char_def)

lemma c_str_idem: "c_str (c_str s) = c_str s"
  by (simp add: c_str_def)

lemmas write_defs = writeName_def startNode_out_def finishNode_out_def makeArray_def
  destructor_def call_def Let_def saveValue_string_def saveValue_bool_def saveValue_int_def
  saveValue_cstr_def ar_bool_def ar_int_def ar_string_def setNextName_out_def
  JSONOutputArchive_new_def saveBinaryValue_def

lemmas read_defs = search_in_def startNode_in_def finishNode_in_def loadValue_via_def
  loadSize_def Iterator_value_def Iterator_name_def Iterator_search_def Iterator_incr_def
  Iterator_object_def Iterator_array_def Init_def setNextName_in_def dom_size_def
  strcmp_eq_def key_equals_def loadValue_int64_def loadValue_string_def
  loadValue_bool_def loadValue_uint64_def loadBinaryValue_def

section \<open>The write side\<close>

lemma unclosed_append: "unclosed (xs @ ys) = unclosed xs + unclosed ys"
  by (simp add: unclosed_def)

lemma writeName_object_unnamed:
  assumes "itsNodeStack ar = t # below" and "t = StartObject \<or> t = InObject"
    and "itsNextName_out ar = None" and "itsNameCounter ar = c # cs"
  shows "writeName ar =
           Some (ar\<lparr>itsWriter := itsWriter ar @ (if t = StartObject then [W_StartObject] else [])
                                    @ [W_String (''value'' @ to_string (unat c))],
                     itsNodeStack := InObject # below,
                     itsNameCounter := (c + 1) # cs\<rparr>)"
  using assms
  by (auto simp: writeName_def call_def saveValue_string_def Let_def)

text \<open>
  At an object level \<^verbatim>\<open>writeName\<close> uses the pending name up: the slot is empty afterwards.
\<close>

lemma writeName_object_clears_name:
  assumes "writeName ar = Some ar'" and "itsNodeStack ar = t # below"
    and "t = StartObject \<or> t = InObject"
  shows "itsNextName_out ar' = None"
  using assms
  by (auto simp: writeName_def call_def saveValue_string_def saveValue_cstr_def Let_def
      split: option.splits list.splits)

text \<open>
  The calls made so far and the node stack stay in step: the constructor starts with
  nothing begun, and \<^verbatim>\<open>writeName\<close>, \<^verbatim>\<open>startNode\<close> and \<^verbatim>\<open>finishNode\<close> keep the number of
  unclosed compounds equal to the number of begun levels.
\<close>

lemma new_in_step:
  "unclosed (itsWriter JSONOutputArchive_new) = begun (itsNodeStack JSONOutputArchive_new)"
  by (simp add: JSONOutputArchive_new_def unclosed_def begun_def)

lemma writeName_in_step:
  assumes "writeName ar = Some ar'" and "unclosed (itsWriter ar) = begun (itsNodeStack ar)"
  shows "unclosed (itsWriter ar') = begun (itsNodeStack ar')"
  using assms
  by (auto simp: writeName_def call_def saveValue_string_def saveValue_cstr_def Let_def
      unclosed_def begun_def split: option.splits list.splits if_splits)

lemma startNode_out_in_step:
  assumes "startNode_out ar = Some ar'" and "unclosed (itsWriter ar) = begun (itsNodeStack ar)"
  shows "unclosed (itsWriter ar') = begun (itsNodeStack ar')"
proof -
  from assms(1) obtain ar1 where w: "writeName ar = Some ar1"
    and eq: "ar' = ar1\<lparr>itsNodeStack := StartObject # itsNodeStack ar1,
                       itsNameCounter := 0 # itsNameCounter ar1\<rparr>"
    by (auto simp: startNode_out_def split: option.splits)
  from writeName_in_step [OF w assms(2)] eq show ?thesis
    by (simp add: begun_def)
qed

lemma finishNode_out_in_step:
  assumes "finishNode_out ar = Some ar'" and "unclosed (itsWriter ar) = begun (itsNodeStack ar)"
  shows "unclosed (itsWriter ar') = begun (itsNodeStack ar')"
proof -
  from assms(1) obtain t below where st: "itsNodeStack ar = t # below"
    and w: "itsWriter ar' = itsWriter ar @ finish_calls t" and st': "itsNodeStack ar' = below"
    by (auto simp: finishNode_out_def split: list.splits)
  from assms(2) st w st' show ?thesis
    by (cases t) (simp_all add: unclosed_def begun_def)
qed

text \<open>
  C5. Every unnamed member of an object level gets the key \<open>value\<close> followed by the
  level's counter, and the counter goes up by one; every node that \<^verbatim>\<open>startNode\<close> opens
  starts with the counter 0; so three unnamed scalars in a fresh object-mode node get the
  keys \<open>value0\<close>, \<open>value1\<close>, \<open>value2\<close>, in this order.
\<close>

theorem unnamed_members_get_value_keys:
  assumes "itsNodeStack ar = t # below" and "t = StartObject \<or> t = InObject"
    and "itsNextName_out ar = None" and "itsNameCounter ar = c # cs"
  shows "writeName ar =
           Some (ar\<lparr>itsWriter := itsWriter ar @ (if t = StartObject then [W_StartObject] else [])
                                    @ [W_String (''value'' @ to_string (unat c))],
                     itsNodeStack := InObject # below,
                     itsNameCounter := (c + 1) # cs\<rparr>)
       \<and> (\<forall>a a'. startNode_out a = Some a' \<longrightarrow>
              (\<exists>st ns. itsNodeStack a' = StartObject # st \<and> itsNameCounter a' = 0 # ns))
       \<and> (t = StartObject \<and> c = 0 \<longrightarrow>
            Option.bind (Option.bind (ar_bool x ar) (ar_int y)) (ar_string z) =
              Some (ar\<lparr>itsWriter := itsWriter ar @
                          [W_StartObject, W_String ''value0'', W_Bool x,
                           W_String ''value1'', W_Int y, W_String ''value2'', W_String z],
                        itsNodeStack := InObject # below,
                        itsNameCounter := 3 # cs\<rparr>))"
proof (intro conjI)
  show "writeName ar =
           Some (ar\<lparr>itsWriter := itsWriter ar @ (if t = StartObject then [W_StartObject] else [])
                                    @ [W_String (''value'' @ to_string (unat c))],
                     itsNodeStack := InObject # below,
                     itsNameCounter := (c + 1) # cs\<rparr>)"
    using assms by (rule writeName_object_unnamed)
  show "\<forall>a a'. startNode_out a = Some a' \<longrightarrow>
              (\<exists>st ns. itsNodeStack a' = StartObject # st \<and> itsNameCounter a' = 0 # ns)"
    by (auto simp: startNode_out_def split: option.splits)
  show "t = StartObject \<and> c = 0 \<longrightarrow>
            Option.bind (Option.bind (ar_bool x ar) (ar_int y)) (ar_string z) =
              Some (ar\<lparr>itsWriter := itsWriter ar @
                          [W_StartObject, W_String ''value0'', W_Bool x,
                           W_String ''value1'', W_Int y, W_String ''value2'', W_String z],
                        itsNodeStack := InObject # below,
                        itsNameCounter := 3 # cs\<rparr>)"
    using assms
    by (auto simp: ar_bool_def ar_int_def ar_string_def writeName_def call_def Let_def
        saveValue_string_def saveValue_bool_def saveValue_int_def
        to_string_0 to_string_1 to_string_2)
qed

text \<open>
  C5 at the node that \<^verbatim>\<open>startNode\<close> opens in a new archive: \<^verbatim>\<open>true\<close>, \<^verbatim>\<open>5\<close> and \<^verbatim>\<open>"s"\<close> written
  without names.
\<close>

theorem unnamed_members_get_value_keys_witness:
  "startNode_out JSONOutputArchive_new =
     Some \<lparr>itsWriter = [W_StartObject, W_String ''value0''], itsNextName_out = None,
           itsNameCounter = [0, 1], itsNodeStack = [StartObject, InObject]\<rparr>
   \<and> Option.bind (Option.bind
        (ar_bool True
           \<lparr>itsWriter = [W_StartObject, W_String ''value0''], itsNextName_out = None,
            itsNameCounter = [0, 1], itsNodeStack = [StartObject, InObject]\<rparr>)
        (ar_int 5)) (ar_string ''s'') =
     Some \<lparr>itsWriter = [W_StartObject, W_String ''value0'',
                          W_StartObject, W_String ''value0'', W_Bool True,
                          W_String ''value1'', W_Int 5, W_String ''value2'', W_String ''s''],
           itsNextName_out = None, itsNameCounter = [3, 1],
           itsNodeStack = [InObject, InObject]\<rparr>"
  using unnamed_members_get_value_keys [where
      ar = "\<lparr>itsWriter = [W_StartObject, W_String ''value0''], itsNextName_out = None,
            itsNameCounter = [0, 1], itsNodeStack = [StartObject, InObject]\<rparr>"
      and t = StartObject and below = "[InObject]" and c = 0 and cs = "[1]"
      and x = True and y = 5 and z = "''s''"]
  by (simp add: startNode_out_def writeName_def call_def Let_def saveValue_string_def
      JSONOutputArchive_new_def to_string_0)

text \<open>
  C4, as stated, fails. A new archive, \<^verbatim>\<open>startNode\<close>, one unnamed \<^verbatim>\<open>int\<close>, then the
  destructor: two objects have been begun, the destructor ends the inner one only, the
  root stays open and the calls make no document.
\<close>

theorem destructor_leaves_ancestors_open:
  "Option.bind (Option.bind (startNode_out JSONOutputArchive_new) (ar_int 1)) destructor =
     Some \<lparr>itsWriter = [W_StartObject, W_String ''value0'', W_StartObject,
                          W_String ''value0'', W_Int 1, W_EndObject],
           itsNextName_out = None, itsNameCounter = [1, 1],
           itsNodeStack = [InObject, InObject]\<rparr>
   \<and> unclosed [W_StartObject, W_String ''value0'', W_StartObject,
                 W_String ''value0'', W_Int 1, W_EndObject] = 1
   \<and> document_of [W_StartObject, W_String ''value0'', W_StartObject,
                 W_String ''value0'', W_Int 1, W_EndObject] = None"
  by (simp add: write_defs to_string_0 unclosed_def c_str_def document_of_def)

text \<open>
  C4, amended. The destructor looks at the top of the node stack only: it ends that
  compound if it has been begun (\<open>InObject\<close>, \<open>InArray\<close>), makes no call otherwise, and pops
  nothing. With the calls and the stack in step, the compounds left open afterwards are
  the begun levels below the top: all are closed exactly when no level below the top has
  been begun, as when only the root level is on the stack.
\<close>

theorem destructor_closes_top_level_only:
  assumes "itsNodeStack ar = t # below"
    and "unclosed (itsWriter ar) = begun (itsNodeStack ar)"
  shows "\<exists>ar'. destructor ar = Some ar'
           \<and> itsNodeStack ar' = t # below
           \<and> itsWriter ar' = itsWriter ar @
                (if t = InObject then [W_EndObject] else if t = InArray then [W_EndArray] else [])
           \<and> unclosed (itsWriter ar') = begun below"
  using assms
  by (cases t) (auto simp: destructor_def call_def unclosed_def begun_def)

text \<open>C4, amended, at a new archive after one unnamed \<^verbatim>\<open>int\<close>: the root is closed.\<close>

theorem destructor_closes_top_level_only_witness:
  "ar_int 1 JSONOutputArchive_new =
     Some \<lparr>itsWriter = [W_StartObject, W_String ''value0'', W_Int 1],
           itsNextName_out = None, itsNameCounter = [1], itsNodeStack = [InObject]\<rparr>
   \<and> unclosed [W_StartObject, W_String ''value0'', W_Int 1] = begun [InObject]
   \<and> destructor \<lparr>itsWriter = [W_StartObject, W_String ''value0'', W_Int 1],
           itsNextName_out = None, itsNameCounter = [1], itsNodeStack = [InObject]\<rparr> =
     Some \<lparr>itsWriter = [W_StartObject, W_String ''value0'', W_Int 1, W_EndObject],
           itsNextName_out = None, itsNameCounter = [1], itsNodeStack = [InObject]\<rparr>
   \<and> unclosed [W_StartObject, W_String ''value0'', W_Int 1, W_EndObject] = 0"
  using destructor_closes_top_level_only [of
      "\<lparr>itsWriter = [W_StartObject, W_String ''value0'', W_Int 1],
           itsNextName_out = None, itsNameCounter = [1], itsNodeStack = [InObject]\<rparr>"
      InObject "[]"]
  by (simp add: write_defs to_string_0 unclosed_def begun_def)

text \<open>
  C8 at an array level. A new archive made an array, \<^verbatim>\<open>setNextName("x")\<close>, \<^verbatim>\<open>writeName\<close>:
  \<^verbatim>\<open>writeName\<close> returns at "Array types do not output names", before the line that clears
  the slot, and the name is still pending. The next unnamed member of an object then gets
  the key \<open>x\<close> where \<open>value0\<close> was due.
\<close>

theorem pending_name_survives_array_level:
  "Option.bind (makeArray JSONOutputArchive_new)
     (\<lambda>a. writeName (setNextName_out (Some ''x'') a)) =
     Some \<lparr>itsWriter = [W_StartArray], itsNextName_out = Some ''x'', itsNameCounter = [0],
           itsNodeStack = [InArray]\<rparr>
   \<and> Option.bind (startNode_out
        \<lparr>itsWriter = [W_StartArray], itsNextName_out = Some ''x'', itsNameCounter = [0],
         itsNodeStack = [InArray]\<rparr>) (ar_int 7) =
     Some \<lparr>itsWriter = [W_StartArray, W_StartObject, W_String ''x'', W_Int 7],
           itsNextName_out = None, itsNameCounter = [0, 0],
           itsNodeStack = [InObject, InArray]\<rparr>"
  by (simp add: write_defs c_str_def)

section \<open>Empty compounds\<close>

lemma startNode_out_finish:
  assumes "startNode_out ar = Some ar1"
  shows "\<exists>ar2. finishNode_out ar1 = Some ar2
           \<and> itsWriter ar2 = itsWriter ar1 @ [W_StartObject, W_EndObject]"
  using assms by (auto simp: startNode_out_def finishNode_out_def split: option.splits)

lemma startNode_out_makeArray_finish:
  assumes "startNode_out ar = Some ar1"
  shows "\<exists>ar3. Option.bind (makeArray ar1) finishNode_out = Some ar3
           \<and> itsWriter ar3 = itsWriter ar1 @ [W_StartArray, W_EndArray]"
  using assms
  by (auto simp: startNode_out_def finishNode_out_def makeArray_def split: option.splits)

lemma feed_empty_object:
  "feed_all [W_StartObject, W_EndObject] st =
     (if value_expected st then put_value (JObject []) st else None)"
  by (cases st) (simp split: option.splits)

lemma feed_empty_array:
  "feed_all [W_StartArray, W_EndArray] st =
     (if value_expected st then put_value (JArray []) st else None)"
  by (cases st) (simp split: option.splits)

lemma read_empty_compound:
  assumes "itsIteratorStack rd = it # its" and "itsNextName_in rd = None"
    and "Iterator_value it = Inr (JObject []) \<or> Iterator_value it = Inr (JArray [])"
  shows "\<exists>rd1. startNode_in rd = Inr rd1 \<and> loadSize rd1 = Inr (0, rd1)"
  using assms
  by (auto simp: startNode_in_def search_in_def loadSize_def dom_size_def)

text \<open>
  C6. A node that is started and finished at once makes the writer begin and end an
  object, or an array when \<^verbatim>\<open>makeArray\<close> came in between; where a value is due these two
  calls put the empty object, or the empty array, into the document; and on the read
  side \<^verbatim>\<open>startNode\<close> on such a value followed by \<^verbatim>\<open>loadSize\<close> reports 0 children.
\<close>

theorem empty_compound:
  assumes "startNode_out ar = Some ar1"
    and "itsIteratorStack rd = it # its" and "itsNextName_in rd = None"
  shows "(\<exists>ar2. finishNode_out ar1 = Some ar2
             \<and> itsWriter ar2 = itsWriter ar1 @ [W_StartObject, W_EndObject])
       \<and> (\<exists>ar3. Option.bind (makeArray ar1) finishNode_out = Some ar3
             \<and> itsWriter ar3 = itsWriter ar1 @ [W_StartArray, W_EndArray])
       \<and> (\<forall>st. value_expected st \<longrightarrow>
             feed_all [W_StartObject, W_EndObject] st = put_value (JObject []) st
           \<and> feed_all [W_StartArray, W_EndArray] st = put_value (JArray []) st)
       \<and> (Iterator_value it = Inr (JObject []) \<or> Iterator_value it = Inr (JArray []) \<longrightarrow>
            (\<exists>rd1. startNode_in rd = Inr rd1 \<and> loadSize rd1 = Inr (0, rd1)))"
  using startNode_out_finish [OF assms(1)] startNode_out_makeArray_finish [OF assms(1)]
    read_empty_compound [OF assms(2,3)]
  by (simp add: feed_empty_object feed_empty_array del: feed_all.simps)

text \<open>
  C6 from end to end: a new archive, \<^verbatim>\<open>startNode\<close>, \<^verbatim>\<open>makeArray\<close>, \<^verbatim>\<open>finishNode\<close>, the
  destructor; the document of the calls; a reader on it, \<^verbatim>\<open>startNode\<close> and \<^verbatim>\<open>loadSize\<close>.
\<close>

theorem empty_compound_witness:
  "Option.bind (Option.bind (Option.bind (startNode_out JSONOutputArchive_new) makeArray)
       finishNode_out) destructor =
     Some \<lparr>itsWriter = [W_StartObject, W_String ''value0'', W_StartArray, W_EndArray,
                          W_EndObject],
           itsNextName_out = None, itsNameCounter = [1], itsNodeStack = [InObject]\<rparr>
   \<and> document_of [W_StartObject, W_String ''value0'', W_StartArray, W_EndArray, W_EndObject] =
       Some (JObject [(''value0'', JArray [])])
   \<and> Init (JObject [(''value0'', JArray [])]) =
       Inr \<lparr>itsNextName_in = None, itsDocument = JObject [(''value0'', JArray [])],
            itsIteratorStack = [Iterator_object [(''value0'', JArray [])]]\<rparr>
   \<and> (\<exists>rd1. startNode_in \<lparr>itsNextName_in = None, itsDocument = JObject [(''value0'', JArray [])],
            itsIteratorStack = [Iterator_object [(''value0'', JArray [])]]\<rparr> = Inr rd1
          \<and> loadSize rd1 = Inr (0, rd1))"
  using empty_compound [of JSONOutputArchive_new
      "\<lparr>itsWriter = [W_StartObject, W_String ''value0''], itsNextName_out = None,
        itsNameCounter = [0, 1], itsNodeStack = [StartObject, InObject]\<rparr>"
      "\<lparr>itsNextName_in = None, itsDocument = JObject [(''value0'', JArray [])],
            itsIteratorStack = [Iterator_object [(''value0'', JArray [])]]\<rparr>"
      "Iterator_object [(''value0'', JArray [])]" "[]"]
  by (simp add: write_defs to_string_0 document_of_def Init_def Iterator_value_def
      Iterator_object_def)

section \<open>Name resolution on the read side\<close>

text \<open>\<^verbatim>\<open>search()\<close> empties the pending-name slot on every path, also when it throws.\<close>

lemma search_in_clears_name:
  "(search_in ar = Inr ar' \<longrightarrow> itsNextName_in ar' = None)
   \<and> (search_in ar = Inl (e, ar') \<longrightarrow> itsNextName_in ar' = None)"
  by (auto simp: search_in_def Let_def split: option.splits list.splits sum.splits if_splits)

lemma search_loop_absent:
  "\<forall>k \<in> fst ` set ms. \<not> key_equals k n \<Longrightarrow>
   search_loop n ms cur = (False, max cur (length ms))"
proof (induction n ms cur rule: search_loop.induct)
  case (1 searchName ms cur)
  show ?case
  proof (cases "cur < length ms")
    case True
    then have "fst (ms ! cur) \<in> fst ` set ms" by simp
    with 1 True show ?thesis
      by (subst search_loop.simps) (auto simp: max_def)
  next
    case False
    then show ?thesis by (subst search_loop.simps) (simp add: max_def)
  qed
qed

lemma no_key_equals:
  assumes "c_str n \<notin> c_str ` fst ` set ms"
  shows "\<forall>k \<in> fst ` set ms. \<not> key_equals k n"
proof
  fix k assume k: "k \<in> fst ` set ms"
  show "\<not> key_equals k n"
  proof
    assume "key_equals k n"
    then have "c_str k = c_str n" by (simp add: key_equals_def c_str_idem)
    with k assms show False by (metis imageI)
  qed
qed

lemma Iterator_search_absent:
  assumes "itsType it = Type_Object" and "c_str n \<notin> c_str ` fst ` set (itsObjectMembers it)"
  shows "Iterator_search n it =
           Inl (NVPNotFound (c_str n), it\<lparr>itsObjectItCurrent := length (itsObjectMembers it)\<rparr>)"
  using assms search_loop_absent [OF no_key_equals [OF assms(2)], of 0]
  by (simp add: Iterator_search_def)

lemma search_in_absent:
  assumes "itsIteratorStack ar = it # its" and "itsType it = Type_Object"
    and "itsNextName_in ar = Some n"
    and "c_str n \<notin> c_str ` fst ` set (itsObjectMembers it)"
  shows "search_in ar =
           Inl (NVPNotFound (c_str n),
                ar\<lparr>itsNextName_in := None,
                   itsIteratorStack :=
                     it\<lparr>itsObjectItCurrent := length (itsObjectMembers it)\<rparr> # its\<rparr>)"
proof -
  have "Iterator_name it = None \<or> (\<exists>k. Iterator_name it = Some k \<and> \<not> strcmp_eq n k)"
  proof (cases "Iterator_name it")
    case None
    then show ?thesis by simp
  next
    case (Some k)
    then have "k \<in> fst ` set (itsObjectMembers it)"
      by (auto simp: Iterator_name_def split: if_splits)
    with assms(4) have "c_str n \<noteq> c_str k" by (metis imageI)
    with Some show ?thesis by (simp add: strcmp_eq_def)
  qed
  then show ?thesis
    using assms(1,3) Iterator_search_absent [OF assms(2,4)]
    by (auto simp: search_in_def Let_def)
qed

text \<open>
  C3, as stated, fails in its second half. An object with the members \<open>a\<close> and \<open>b\<close>: after
  \<open>a\<close> has been read the cursor is at \<open>b\<close> (position 1). Asking for the absent name \<open>z\<close>
  throws "not found" and leaves the cursor at the end (position 2): the unnamed read that
  gave 2 before the failed search now throws "No more objects in input".
\<close>

theorem failed_search_moves_cursor:
  "loadValue_int64
      \<lparr>itsNextName_in = None, itsDocument = JObject [(''a'', JInt64 1), (''b'', JInt64 2)],
       itsIteratorStack = [Iterator_object [(''a'', JInt64 1), (''b'', JInt64 2)]]\<rparr> =
     Inr (1, \<lparr>itsNextName_in = None, itsDocument = JObject [(''a'', JInt64 1), (''b'', JInt64 2)],
              itsIteratorStack = [(Iterator_object [(''a'', JInt64 1), (''b'', JInt64 2)])
                                     \<lparr>itsObjectItCurrent := 1\<rparr>]\<rparr>)
   \<and> search_in
      \<lparr>itsNextName_in = Some ''z'', itsDocument = JObject [(''a'', JInt64 1), (''b'', JInt64 2)],
       itsIteratorStack = [(Iterator_object [(''a'', JInt64 1), (''b'', JInt64 2)])
                              \<lparr>itsObjectItCurrent := 1\<rparr>]\<rparr> =
     Inl (NVPNotFound ''z'',
          \<lparr>itsNextName_in = None, itsDocument = JObject [(''a'', JInt64 1), (''b'', JInt64 2)],
           itsIteratorStack = [(Iterator_object [(''a'', JInt64 1), (''b'', JInt64 2)])
                                  \<lparr>itsObjectItCurrent := 2\<rparr>]\<rparr>)
   \<and> loadValue_int64
      \<lparr>itsNextName_in = None, itsDocument = JObject [(''a'', JInt64 1), (''b'', JInt64 2)],
       itsIteratorStack = [(Iterator_object [(''a'', JInt64 1), (''b'', JInt64 2)])
                              \<lparr>itsObjectItCurrent := 1\<rparr>]\<rparr> =
     Inr (2, \<lparr>itsNextName_in = None, itsDocument = JObject [(''a'', JInt64 1), (''b'', JInt64 2)],
              itsIteratorStack = [(Iterator_object [(''a'', JInt64 1), (''b'', JInt64 2)])
                                     \<lparr>itsObjectItCurrent := 2\<rparr>]\<rparr>)
   \<and> loadValue_int64
      \<lparr>itsNextName_in = None, itsDocument = JObject [(''a'', JInt64 1), (''b'', JInt64 2)],
       itsIteratorStack = [(Iterator_object [(''a'', JInt64 1), (''b'', JInt64 2)])
                              \<lparr>itsObjectItCurrent := 2\<rparr>]\<rparr> =
     Inl (NoMoreObjects,
          \<lparr>itsNextName_in = None, itsDocument = JObject [(''a'', JInt64 1), (''b'', JInt64 2)],
           itsIteratorStack = [(Iterator_object [(''a'', JInt64 1), (''b'', JInt64 2)])
                                  \<lparr>itsObjectItCurrent := 2\<rparr>]\<rparr>)"
  by (simp add: read_defs Let_def c_str_def search_loop.simps)

text \<open>
  C3, amended. On an object cursor, a pending name that no key of the object equals (name
  and keys read as C strings, as \<^verbatim>\<open>strcmp\<close> and \<^verbatim>\<open>key_equals\<close> read them) makes name
  resolution throw "not found" with that name, in \<^verbatim>\<open>search()\<close> and so in every \<^verbatim>\<open>loadValue\<close>
  and in \<^verbatim>\<open>startNode\<close>. At the throw the pending name is cleared and the cursor stands at the
  end of the object's members, where the scan left it.
\<close>

theorem missing_name_fails_cursor_at_end:
  assumes "itsIteratorStack ar = it # its" and "itsType it = Type_Object"
    and "itsNextName_in ar = Some n"
    and "c_str n \<notin> c_str ` fst ` set (itsObjectMembers it)"
  shows "search_in ar =
           Inl (NVPNotFound (c_str n),
                ar\<lparr>itsNextName_in := None,
                   itsIteratorStack :=
                     it\<lparr>itsObjectItCurrent := length (itsObjectMembers it)\<rparr> # its\<rparr>)
       \<and> loadValue_via getter ar =
           Inl (NVPNotFound (c_str n),
                ar\<lparr>itsNextName_in := None,
                   itsIteratorStack :=
                     it\<lparr>itsObjectItCurrent := length (itsObjectMembers it)\<rparr> # its\<rparr>)
       \<and> startNode_in ar =
           Inl (NVPNotFound (c_str n),
                ar\<lparr>itsNextName_in := None,
                   itsIteratorStack :=
                     it\<lparr>itsObjectItCurrent := length (itsObjectMembers it)\<rparr> # its\<rparr>)"
  using search_in_absent [OF assms]
  by (simp add: loadValue_via_def startNode_in_def)

text \<open>C3, amended, at the object with the members \<open>a\<close> and \<open>b\<close> and the name \<open>z\<close>.\<close>

theorem missing_name_fails_cursor_at_end_witness:
  "search_in
      \<lparr>itsNextName_in = Some ''z'', itsDocument = JObject [(''a'', JInt64 1), (''b'', JInt64 2)],
       itsIteratorStack = [Iterator_object [(''a'', JInt64 1), (''b'', JInt64 2)]]\<rparr> =
     Inl (NVPNotFound ''z'',
          \<lparr>itsNextName_in = None, itsDocument = JObject [(''a'', JInt64 1), (''b'', JInt64 2)],
           itsIteratorStack = [(Iterator_object [(''a'', JInt64 1), (''b'', JInt64 2)])
                                  \<lparr>itsObjectItCurrent := 2\<rparr>]\<rparr>)"
  using missing_name_fails_cursor_at_end [of
      "\<lparr>itsNextName_in = Some ''z'', itsDocument = JObject [(''a'', JInt64 1), (''b'', JInt64 2)],
        itsIteratorStack = [Iterator_object [(''a'', JInt64 1), (''b'', JInt64 2)]]\<rparr>"
      "Iterator_object [(''a'', JInt64 1), (''b'', JInt64 2)]" "[]" "''z''" get_int64]
  by (simp add: Iterator_object_def c_str_def)

text \<open>
  C9. With an array cursor on top and a name pending, name resolution throws "Cannot
  search for a name in a non-object JSON node": in \<^verbatim>\<open>search()\<close>, in every \<^verbatim>\<open>loadValue\<close> and in
  \<^verbatim>\<open>startNode\<close>. Nothing is read by position.
\<close>

theorem named_read_on_array_fails:
  assumes "itsIteratorStack ar = it # its" and "itsType it = Type_Array"
    and "itsNextName_in ar = Some n"
  shows "search_in ar = Inl (SearchNonObject, ar\<lparr>itsNextName_in := None\<rparr>)
       \<and> loadValue_via getter ar = Inl (SearchNonObject, ar\<lparr>itsNextName_in := None\<rparr>)
       \<and> loadValue_null ar = Inl (SearchNonObject, ar\<lparr>itsNextName_in := None\<rparr>)
       \<and> startNode_in ar = Inl (SearchNonObject, ar\<lparr>itsNextName_in := None\<rparr>)"
proof -
  have "ar\<lparr>itsNextName_in := None, itsIteratorStack := it # its\<rparr> = ar\<lparr>itsNextName_in := None\<rparr>"
    using assms(1) by (cases ar) simp
  then have "search_in ar = Inl (SearchNonObject, ar\<lparr>itsNextName_in := None\<rparr>)"
    using assms
    by (simp add: search_in_def Let_def Iterator_name_def Iterator_search_def)
  then show ?thesis
    by (simp add: loadValue_via_def loadValue_null_def startNode_in_def)
qed

text \<open>C9 at the array \<open>[1, 2]\<close> with the name \<open>x\<close> pending.\<close>

theorem named_read_on_array_fails_witness:
  "Init (JArray [JInt64 1, JInt64 2]) =
     Inr \<lparr>itsNextName_in = None, itsDocument = JArray [JInt64 1, JInt64 2],
          itsIteratorStack = [Iterator_array [JInt64 1, JInt64 2]]\<rparr>
   \<and> loadValue_int64 (setNextName_in (Some ''x'')
        \<lparr>itsNextName_in = None, itsDocument = JArray [JInt64 1, JInt64 2],
         itsIteratorStack = [Iterator_array [JInt64 1, JInt64 2]]\<rparr>) =
     Inl (SearchNonObject,
          \<lparr>itsNextName_in = None, itsDocument = JArray [JInt64 1, JInt64 2],
           itsIteratorStack = [Iterator_array [JInt64 1, JInt64 2]]\<rparr>)"
  using named_read_on_array_fails [of
      "\<lparr>itsNextName_in = Some ''x'', itsDocument = JArray [JInt64 1, JInt64 2],
        itsIteratorStack = [Iterator_array [JInt64 1, JInt64 2]]\<rparr>"
      "Iterator_array [JInt64 1, JInt64 2]" "[]" "''x''" get_int64]
  by (simp add: Init_def Iterator_array_def setNextName_in_def loadValue_int64_def)

text \<open>
  C2. An object whose members were written under the names \<open>a\<close>, \<open>b\<close>, \<open>c\<close>, in this
  order, the names pairwise different: reading \<open>c\<close>, \<open>a\<close>, \<open>b\<close> by name gives the values
  that reading three times without a name gives for \<open>a\<close>, \<open>b\<close>, \<open>c\<close>. After \<open>a\<close> was found
  by a search, a read without a name goes on at the member after it and gives the value
  of \<open>b\<close>.
\<close>

theorem named_reads_in_any_order:
  assumes "itsIteratorStack ar =
             Iterator_object [(c_str a, va), (c_str b, vb), (c_str c, vc)] # its"
    and "itsNextName_in ar = None"
    and "distinct [c_str a, c_str b, c_str c]"
    and "ga va = Inr xa" and "gb vb = Inr xb" and "gc vc = Inr xc"
  shows "\<exists>s1 s2 s3 t1 t2 t3.
           loadValue_via ga ar = Inr (xa, s1)
         \<and> loadValue_via gb s1 = Inr (xb, s2)
         \<and> loadValue_via gc s2 = Inr (xc, s3)
         \<and> loadValue_via gc (setNextName_in (Some c) ar) = Inr (xc, t1)
         \<and> loadValue_via ga (setNextName_in (Some a) t1) = Inr (xa, t2)
         \<and> loadValue_via gb (setNextName_in (Some b) t2) = Inr (xb, t3)
         \<and> loadValue_via gb t2 = Inr (xb, t3)"
proof -
  have neq: "c_str a \<noteq> c_str b" "c_str a \<noteq> c_str c" "c_str b \<noteq> c_str c"
    "c_str b \<noteq> c_str a" "c_str c \<noteq> c_str a" "c_str c \<noteq> c_str b"
    using assms(3) by auto
  show ?thesis
    using assms(1,2,4,5,6) neq
    by (simp add: read_defs Let_def search_loop.simps c_str_idem)
qed

text \<open>
  C2 from end to end: \<open>a\<close>, \<open>b\<close>, \<open>c\<close> written as named \<^verbatim>\<open>int\<close>s 1, 2, 3 into a new archive,
  the document of the calls, and the reads on it.
\<close>

theorem named_reads_in_any_order_witness:
  "Option.bind (Option.bind (Option.bind
       (ar_int 1 (setNextName_out (Some ''a'') JSONOutputArchive_new))
       (\<lambda>s. ar_int 2 (setNextName_out (Some ''b'') s)))
       (\<lambda>s. ar_int 3 (setNextName_out (Some ''c'') s))) destructor =
     Some \<lparr>itsWriter = [W_StartObject, W_String ''a'', W_Int 1, W_String ''b'', W_Int 2,
                          W_String ''c'', W_Int 3, W_EndObject],
           itsNextName_out = None, itsNameCounter = [0], itsNodeStack = [InObject]\<rparr>
   \<and> document_of [W_StartObject, W_String ''a'', W_Int 1, W_String ''b'', W_Int 2,
                   W_String ''c'', W_Int 3, W_EndObject] =
       Some (JObject [(''a'', JInt64 1), (''b'', JInt64 2), (''c'', JInt64 3)])
   \<and> Init (JObject [(''a'', JInt64 1), (''b'', JInt64 2), (''c'', JInt64 3)]) =
       Inr \<lparr>itsNextName_in = None,
            itsDocument = JObject [(''a'', JInt64 1), (''b'', JInt64 2), (''c'', JInt64 3)],
            itsIteratorStack =
              [Iterator_object [(''a'', JInt64 1), (''b'', JInt64 2), (''c'', JInt64 3)]]\<rparr>
   \<and> (\<exists>s1 s2 s3 t1 t2 t3.
         loadValue_int64
           \<lparr>itsNextName_in = None,
            itsDocument = JObject [(''a'', JInt64 1), (''b'', JInt64 2), (''c'', JInt64 3)],
            itsIteratorStack =
              [Iterator_object [(''a'', JInt64 1), (''b'', JInt64 2), (''c'', JInt64 3)]]\<rparr> =
           Inr (1, s1)
       \<and> loadValue_int64 s1 = Inr (2, s2)
       \<and> loadValue_int64 s2 = Inr (3, s3)
       \<and> loadValue_int64 (setNextName_in (Some ''c'')
           \<lparr>itsNextName_in = None,
            itsDocument = JObject [(''a'', JInt64 1), (''b'', JInt64 2), (''c'', JInt64 3)],
            itsIteratorStack =
              [Iterator_object [(''a'', JInt64 1), (''b'', JInt64 2), (''c'', JInt64 3)]]\<rparr>) =
           Inr (3, t1)
       \<and> loadValue_int64 (setNextName_in (Some ''a'') t1) = Inr (1, t2)
       \<and> loadValue_int64 (setNextName_in (Some ''b'') t2) = Inr (2, t3)
       \<and> loadValue_int64 t2 = Inr (2, t3))"
proof -
  have r: "\<exists>s1 s2 s3 t1 t2 t3.
         loadValue_via get_int64
           \<lparr>itsNextName_in = None,
            itsDocument = JObject [(''a'', JInt64 1), (''b'', JInt64 2), (''c'', JInt64 3)],
            itsIteratorStack =
              [Iterator_object [(''a'', JInt64 1), (''b'', JInt64 2), (''c'', JInt64 3)]]\<rparr> =
           Inr (1, s1)
       \<and> loadValue_via get_int64 s1 = Inr (2, s2)
       \<and> loadValue_via get_int64 s2 = Inr (3, s3)
       \<and> loadValue_via get_int64 (setNextName_in (Some ''c'')
           \<lparr>itsNextName_in = None,
            itsDocument = JObject [(''a'', JInt64 1), (''b'', JInt64 2), (''c'', JInt64 3)],
            itsIteratorStack =
              [Iterator_object [(''a'', JInt64 1), (''b'', JInt64 2), (''c'', JInt64 3)]]\<rparr>) =
           Inr (3, t1)
       \<and> loadValue_via get_int64 (setNextName_in (Some ''a'') t1) = Inr (1, t2)
       \<and> loadValue_via get_int64 (setNextName_in (Some ''b'') t2) = Inr (2, t3)
       \<and> loadValue_via get_int64 t2 = Inr (2, t3)"
    using named_reads_in_any_order [where a = "''a''" and b = "''b''" and c = "''c''"
        and va = "JInt64 1" and vb = "JInt64 2" and vc = "JInt64 3"
        and ga = get_int64 and gb = get_int64 and gc = get_int64
        and xa = 1 and xb = 2 and xc = 3 and its = "[]"
        and ar = "\<lparr>itsNextName_in = None,
            itsDocument = JObject [(''a'', JInt64 1), (''b'', JInt64 2), (''c'', JInt64 3)],
            itsIteratorStack =
              [Iterator_object [(''a'', JInt64 1), (''b'', JInt64 2), (''c'', JInt64 3)]]\<rparr>"]
    by (simp add: c_str_def)
  show ?thesis
    using r
    by (simp add: write_defs document_of_def Init_def loadValue_int64_def c_str_def)
qed

lemma search_loop_found:
  assumes "i < length ms" and "key_equals (fst (ms ! i)) n"
    and "\<forall>j<i. \<not> key_equals (fst (ms ! j)) n" and "cur \<le> i"
  shows "search_loop n ms cur = (True, i)"
  using assms
proof (induction n ms cur rule: search_loop.induct)
  case (1 searchName ms cur)
  show ?case
  proof (cases "cur = i")
    case True
    with 1 show ?thesis by (subst search_loop.simps) simp
  next
    case False
    with 1 have lt: "cur < i" by simp
    with 1 have nk: "\<not> key_equals (fst (ms ! cur)) searchName" by simp
    from lt 1 have "cur < length ms" by simp
    with nk lt 1 show ?thesis
      by (subst search_loop.simps) simp
  qed
qed

text \<open>
  A named read whose name is not the key under the cursor scans from the first member:
  the first member with that key is read, whatever stood under the cursor before, and the
  cursor is left one past it, so a read without a name goes on from there.
\<close>

theorem named_lookup_resumes_after_match:
  assumes "itsIteratorStack ar = it # its" and "itsType it = Type_Object"
    and "itsNextName_in ar = Some n"
    and "i < length (itsObjectMembers it)"
    and "fst (itsObjectMembers it ! i) = c_str n"
    and "\<forall>j<i. fst (itsObjectMembers it ! j) \<noteq> c_str n"
    and "Iterator_name it = None \<or> (\<exists>k. Iterator_name it = Some k \<and> \<not> strcmp_eq n k)"
    and "getter (snd (itsObjectMembers it ! i)) = Inr x"
  shows "loadValue_via getter ar =
           Inr (x, ar\<lparr>itsNextName_in := None,
                     itsIteratorStack := it\<lparr>itsObjectItCurrent := Suc i\<rparr> # its\<rparr>)"
proof -
  have "search_loop n (itsObjectMembers it) 0 = (True, i)"
    using assms(4,5,6) by (intro search_loop_found) (simp_all add: key_equals_def)
  then have s: "Iterator_search n it = Inr (it\<lparr>itsObjectItCurrent := i\<rparr>)"
    using assms(2) by (simp add: Iterator_search_def)
  have "search_in ar =
          Inr (ar\<lparr>itsNextName_in := None,
                  itsIteratorStack := it\<lparr>itsObjectItCurrent := i\<rparr> # its\<rparr>)"
    using assms(1,3,7) s by (auto simp: search_in_def Let_def)
  then show ?thesis
    using assms(2,4,8)
    by (simp add: loadValue_via_def Iterator_value_def Iterator_incr_def)
qed

text \<open>
  The statement above on an object with the members \<open>a\<close>, \<open>b\<close>, \<open>c\<close>, the cursor at the
  end, and the name \<open>b\<close>.
\<close>

theorem named_lookup_resumes_after_match_witness:
  "loadValue_int64
      \<lparr>itsNextName_in = Some ''b'',
       itsDocument = JObject [(''a'', JInt64 1), (''b'', JInt64 2), (''c'', JInt64 3)],
       itsIteratorStack =
         [(Iterator_object [(''a'', JInt64 1), (''b'', JInt64 2), (''c'', JInt64 3)])
             \<lparr>itsObjectItCurrent := 3\<rparr>]\<rparr> =
     Inr (2, \<lparr>itsNextName_in = None,
              itsDocument = JObject [(''a'', JInt64 1), (''b'', JInt64 2), (''c'', JInt64 3)],
              itsIteratorStack =
                [(Iterator_object [(''a'', JInt64 1), (''b'', JInt64 2), (''c'', JInt64 3)])
                    \<lparr>itsObjectItCurrent := 2\<rparr>]\<rparr>)"
  using named_lookup_resumes_after_match [where
      ar = "\<lparr>itsNextName_in = Some ''b'',
       itsDocument = JObject [(''a'', JInt64 1), (''b'', JInt64 2), (''c'', JInt64 3)],
       itsIteratorStack =
         [(Iterator_object [(''a'', JInt64 1), (''b'', JInt64 2), (''c'', JInt64 3)])
             \<lparr>itsObjectItCurrent := 3\<rparr>]\<rparr>"
      and it = "(Iterator_object [(''a'', JInt64 1), (''b'', JInt64 2), (''c'', JInt64 3)])
             \<lparr>itsObjectItCurrent := 3\<rparr>"
      and its = "[]" and n = "''b''" and i = 1 and getter = get_int64 and x = 2]
  by (simp add: Iterator_object_def Iterator_name_def c_str_def loadValue_int64_def
      less_Suc_eq)

section \<open>Integers narrower than 64 bits\<close>






section \<open>Binary values\<close>

lemma saveBinaryValue_last:
  assumes "saveBinaryValue encode bytes name ar = Some ar'"
  shows "\<exists>ar1. writeName (setNextName_out name ar) = Some ar1
            \<and> itsWriter ar' = itsWriter ar1 @ [W_String (encode bytes)]"
  using assms
  by (auto simp: saveBinaryValue_def saveValue_string_def call_def split: option.splits)

lemma loadBinaryValue_after_string:
  assumes "loadValue_string (rd\<lparr>itsNextName_in := name\<rparr>) = Inr (s, rd1)"
  shows "loadBinaryValue decode data sz name rd =
           (if sz \<noteq> length (decode s) then Inl (BinarySizeMismatch, rd1, data)
            else Inr (rd1\<lparr>itsNextName_in := None\<rparr>, decode s @ drop (length (decode s)) data))"
  using assms by (simp add: loadBinaryValue_def Let_def)

lemma loadBinaryValue_buffer_kept:
  "loadBinaryValue decode data sz name rd = Inl (e, rd', buf) \<Longrightarrow> buf = data"
  by (auto simp: loadBinaryValue_def Let_def split: sum.splits prod.splits if_splits)

lemma loadBinaryValue_string_error:
  "loadValue_string (rd\<lparr>itsNextName_in := name\<rparr>) = Inl (e, rd1) \<Longrightarrow>
   loadBinaryValue decode data sz name rd = Inl (e, rd1, data)"
  by (simp add: loadBinaryValue_def)

text \<open>
  C7, as stated, fails. Three bytes saved with the name \<open>blob\<close> into a node made an array:
  the write side drops the name and writes the string. Loading with the same name and the
  declared size 3 throws in \<^verbatim>\<open>search()\<close>, because the cursor is an array cursor; the decoded
  length is 3, equal to the declared size.
\<close>

theorem named_binary_value_in_array_fails:
  "Option.bind (Option.bind (Option.bind (Option.bind
       (startNode_out JSONOutputArchive_new) makeArray)
       (saveBinaryValue base64_encode [1, 2, 3] (Some ''blob''))) finishNode_out) destructor =
     Some \<lparr>itsWriter = [W_StartObject, W_String ''value0'', W_StartArray, W_String ''AQID'',
                          W_EndArray, W_EndObject],
           itsNextName_out = Some ''blob'', itsNameCounter = [1], itsNodeStack = [InObject]\<rparr>
   \<and> document_of [W_StartObject, W_String ''value0'', W_StartArray, W_String ''AQID'',
                   W_EndArray, W_EndObject] =
       Some (JObject [(''value0'', JArray [JString ''AQID''])])
   \<and> Init (JObject [(''value0'', JArray [JString ''AQID''])]) =
       Inr \<lparr>itsNextName_in = None, itsDocument = JObject [(''value0'', JArray [JString ''AQID''])],
            itsIteratorStack = [Iterator_object [(''value0'', JArray [JString ''AQID''])]]\<rparr>
   \<and> startNode_in
        \<lparr>itsNextName_in = None, itsDocument = JObject [(''value0'', JArray [JString ''AQID''])],
         itsIteratorStack = [Iterator_object [(''value0'', JArray [JString ''AQID''])]]\<rparr> =
       Inr \<lparr>itsNextName_in = None, itsDocument = JObject [(''value0'', JArray [JString ''AQID''])],
            itsIteratorStack = [Iterator_array [JString ''AQID''],
                                Iterator_object [(''value0'', JArray [JString ''AQID''])]]\<rparr>
   \<and> length (base64_decode ''AQID'') = 3
   \<and> loadBinaryValue base64_decode [0, 0, 0] 3 (Some ''blob'')
        \<lparr>itsNextName_in = None, itsDocument = JObject [(''value0'', JArray [JString ''AQID''])],
         itsIteratorStack = [Iterator_array [JString ''AQID''],
                             Iterator_object [(''value0'', JArray [JString ''AQID''])]]\<rparr> =
       Inl (SearchNonObject,
            \<lparr>itsNextName_in = None, itsDocument = JObject [(''value0'', JArray [JString ''AQID''])],
             itsIteratorStack = [Iterator_array [JString ''AQID''],
                                 Iterator_object [(''value0'', JArray [JString ''AQID''])]]\<rparr>,
            [0, 0, 0])"
  by (simp add: write_defs read_defs to_string_0 base64_chars_def base64_value_def document_of_def)

text \<open>
  C7, amended. \<^verbatim>\<open>saveBinaryValue\<close> resolves the name with \<^verbatim>\<open>writeName\<close> and writes the codec's
  text of the buffer as one string. Where \<^verbatim>\<open>loadBinaryValue\<close> can read that string (the name,
  if any, resolves and a string is there), it returns the original bytes in the buffer
  when the declared size is their number and the codec decodes what it encoded; with the
  string read, it throws exactly when the decoded length differs from the declared size.
  An error of the string read is passed on. Whenever it throws, the buffer is as it was.
\<close>

theorem binary_value_round_trip:
  assumes "saveBinaryValue encode bytes name ar = Some ar'"
    and "loadValue_string (rd\<lparr>itsNextName_in := name'\<rparr>) = Inr (s, rd1)"
  shows "(\<exists>ar1. writeName (setNextName_out name ar) = Some ar1
            \<and> itsWriter ar' = itsWriter ar1 @ [W_String (encode bytes)])
       \<and> scalar_of_call (W_String (encode bytes)) = Some (JString (encode bytes))
       \<and> (s = encode bytes \<and> decode (encode bytes) = bytes \<longrightarrow>
            loadBinaryValue decode data (length bytes) name' rd =
              Inr (rd1\<lparr>itsNextName_in := None\<rparr>, bytes @ drop (length bytes) data))
       \<and> (isl (loadBinaryValue decode data sz name' rd) \<longleftrightarrow> sz \<noteq> length (decode s))
       \<and> (\<forall>rd2 e rd3 buf. loadBinaryValue decode data sz name' rd2 = Inl (e, rd3, buf) \<longrightarrow>
             buf = data)
       \<and> (\<forall>rd2 e rd3. loadValue_string (rd2\<lparr>itsNextName_in := name'\<rparr>) = Inl (e, rd3) \<longrightarrow>
             loadBinaryValue decode data sz name' rd2 = Inl (e, rd3, data))"
  using saveBinaryValue_last [OF assms(1)] loadBinaryValue_after_string [OF assms(2)]
    loadBinaryValue_buffer_kept loadBinaryValue_string_error
  by auto

text \<open>
  C7, amended, from end to end with base64: the bytes 1, 2, 3 under the name \<open>blob\<close> at
  the root object; declared size 3 gives the bytes back, declared size 2 throws.
\<close>

theorem binary_value_round_trip_witness:
  "saveBinaryValue base64_encode [1, 2, 3] (Some ''blob'') JSONOutputArchive_new =
     Some \<lparr>itsWriter = [W_StartObject, W_String ''blob'', W_String ''AQID''],
           itsNextName_out = None, itsNameCounter = [0], itsNodeStack = [InObject]\<rparr>
   \<and> document_of [W_StartObject, W_String ''blob'', W_String ''AQID'', W_EndObject] =
       Some (JObject [(''blob'', JString ''AQID'')])
   \<and> loadValue_string
        \<lparr>itsNextName_in = Some ''blob'', itsDocument = JObject [(''blob'', JString ''AQID'')],
         itsIteratorStack = [Iterator_object [(''blob'', JString ''AQID'')]]\<rparr> =
       Inr (''AQID'',
            \<lparr>itsNextName_in = None, itsDocument = JObject [(''blob'', JString ''AQID'')],
             itsIteratorStack = [(Iterator_object [(''blob'', JString ''AQID'')])
                                    \<lparr>itsObjectItCurrent := 1\<rparr>]\<rparr>)
   \<and> loadBinaryValue base64_decode [0, 0, 0] 3 (Some ''blob'')
        \<lparr>itsNextName_in = None, itsDocument = JObject [(''blob'', JString ''AQID'')],
         itsIteratorStack = [Iterator_object [(''blob'', JString ''AQID'')]]\<rparr> =
       Inr (\<lparr>itsNextName_in = None, itsDocument = JObject [(''blob'', JString ''AQID'')],
             itsIteratorStack = [(Iterator_object [(''blob'', JString ''AQID'')])
                                    \<lparr>itsObjectItCurrent := 1\<rparr>]\<rparr>,
            [1, 2, 3])
   \<and> isl (loadBinaryValue base64_decode [0, 0, 0] 2 (Some ''blob'')
        \<lparr>itsNextName_in = None, itsDocument = JObject [(''blob'', JString ''AQID'')],
         itsIteratorStack = [Iterator_object [(''blob'', JString ''AQID'')]]\<rparr>)"
  using binary_value_round_trip [where encode = base64_encode and bytes = "[1, 2, 3]"
      and name = "Some ''blob''" and ar = JSONOutputArchive_new
      and ar' = "\<lparr>itsWriter = [W_StartObject, W_String ''blob'', W_String ''AQID''],
           itsNextName_out = None, itsNameCounter = [0], itsNodeStack = [InObject]\<rparr>"
      and rd = "\<lparr>itsNextName_in = None, itsDocument = JObject [(''blob'', JString ''AQID'')],
         itsIteratorStack = [Iterator_object [(''blob'', JString ''AQID'')]]\<rparr>"
      and name' = "Some ''blob''" and s = "''AQID''"
      and ?rd1.0 = "\<lparr>itsNextName_in = None, itsDocument = JObject [(''blob'', JString ''AQID'')],
             itsIteratorStack = [(Iterator_object [(''blob'', JString ''AQID'')])
                                    \<lparr>itsObjectItCurrent := 1\<rparr>]\<rparr>"
      and decode = base64_decode and data = "[0, 0, 0]" and sz = 2]
  by (simp add: write_defs read_defs base64_chars_def base64_value_def document_of_def c_str_def)

section \<open>Scalars that are not floating point\<close>

lemma scast_scast_32: "(scast (scast (i :: 32 word) :: 64 word) :: 32 word) = i"
  by (rule bit_word_eqI) (auto simp: bit_simps)

lemma ucast_ucast_32: "(ucast (ucast (u :: 32 word) :: 64 word) :: 32 word) = u"
  by (rule bit_word_eqI) (auto simp: bit_simps)

lemma ucast_32_nonneg: "\<not> sint (ucast (u :: 32 word) :: 64 word) < 0"
  by (auto simp: bit_last_iff [symmetric] bit_simps dest: bit_imp_le_length)

lemma small_uint64_nonneg:
  assumes "(u :: 64 word) \<le> 0x7FFFFFFFFFFFFFFF"
  shows "\<not> sint u < 0"
proof -
  have le: "uint u \<le> 0x7FFFFFFFFFFFFFFF"
    using assms by (simp add: word_le_def)
  have "sint u = signed_take_bit 63 (uint u)"
    by (simp add: sint_uint)
  also have "\<dots> = uint u"
  proof (rule signed_take_bit_int_eq_self)
    show "- (2 ^ 63) \<le> uint u" by (rule order_trans [of _ 0]) simp_all
    show "uint u < 2 ^ 63" using le by simp
  qed
  finally show ?thesis by simp
qed

text \<open>
  A \<^verbatim>\<open>bool\<close>, a 32-bit or 64-bit signed or unsigned integer, a string and a null, written by
  \<^verbatim>\<open>saveValue\<close> and found by the reader as the value the call parses to, are loaded back
  unchanged by the \<^verbatim>\<open>loadValue\<close> of the same type. Doubles and the wider arithmetic types,
  which go through decimal text, are outside this statement.
\<close>

theorem discrete_scalars_read_back:
  assumes "itsIteratorStack rd = it # its" and "itsNextName_in rd = None"
    and "Iterator_value it = Inr v"
  shows "(scalar_of_call (W_Bool b) = Some v \<longrightarrow>
            loadValue_bool rd = Inr (b, rd\<lparr>itsIteratorStack := Iterator_incr it # its\<rparr>))
       \<and> (scalar_of_call (W_Int i) = Some v \<longrightarrow>
            loadValue_small_signed rd = Inr (i, rd\<lparr>itsIteratorStack := Iterator_incr it # its\<rparr>))
       \<and> (scalar_of_call (W_Uint u) = Some v \<longrightarrow>
            loadValue_small_unsigned rd =
              Inr (u, rd\<lparr>itsIteratorStack := Iterator_incr it # its\<rparr>))
       \<and> (scalar_of_call (W_Int64 i64) = Some v \<longrightarrow>
            loadValue_int64 rd = Inr (i64, rd\<lparr>itsIteratorStack := Iterator_incr it # its\<rparr>))
       \<and> (scalar_of_call (W_Uint64 u64) = Some v \<longrightarrow>
            loadValue_uint64 rd = Inr (u64, rd\<lparr>itsIteratorStack := Iterator_incr it # its\<rparr>))
       \<and> (scalar_of_call (W_String s) = Some v \<longrightarrow>
            loadValue_string rd = Inr (s, rd\<lparr>itsIteratorStack := Iterator_incr it # its\<rparr>))
       \<and> (scalar_of_call W_Null = Some v \<longrightarrow>
            loadValue_null rd = Inr (rd\<lparr>itsIteratorStack := Iterator_incr it # its\<rparr>))"
proof -
  have same: "rd\<lparr>itsNextName_in := None\<rparr> = rd"
    using assms(2) by (cases rd) simp
  show ?thesis
    using assms same
    by (auto simp: loadValue_bool_def loadValue_small_signed_def loadValue_small_unsigned_def
        loadValue_int64_def loadValue_uint64_def loadValue_string_def loadValue_null_def
        loadValue_via_def search_in_def Let_def scast_scast_32 ucast_ucast_32
        ucast_32_nonneg small_uint64_nonneg)
qed

text \<open>The statement above at the 64-bit boundary values \<open>- 2 ^ 63\<close> and \<open>2 ^ 63\<close>.\<close>

theorem discrete_scalars_read_back_witness:
  "scalar_of_call (W_Int64 (- 9223372036854775808)) = Some (JInt64 (- 9223372036854775808))
   \<and> loadValue_int64
        \<lparr>itsNextName_in = None, itsDocument = JArray [JInt64 (- 9223372036854775808)],
         itsIteratorStack = [Iterator_array [JInt64 (- 9223372036854775808)]]\<rparr> =
       Inr (- 9223372036854775808,
            \<lparr>itsNextName_in = None, itsDocument = JArray [JInt64 (- 9223372036854775808)],
             itsIteratorStack = [(Iterator_array [JInt64 (- 9223372036854775808)])
                                    \<lparr>itsArrayItCurrent := 1\<rparr>]\<rparr>)
   \<and> scalar_of_call (W_Uint64 9223372036854775808) = Some (JUint64 9223372036854775808)
   \<and> get_uint64 (JUint64 9223372036854775808) = Inr 9223372036854775808"
  using discrete_scalars_read_back [where
      rd = "\<lparr>itsNextName_in = None, itsDocument = JArray [JInt64 (- 9223372036854775808)],
         itsIteratorStack = [Iterator_array [JInt64 (- 9223372036854775808)]]\<rparr>"
      and it = "Iterator_array [JInt64 (- 9223372036854775808)]" and its = "[]"
      and v = "JInt64 (- 9223372036854775808)" and ?i64.0 = "- 9223372036854775808"]
  by (simp add: Iterator_value_def Iterator_array_def Iterator_incr_def)

end
